theory Spec2Isabelle
  imports Complex_Main
begin

section \<open>Data model (types of the application)\<close>

text \<open>
  The scheduler of the flashcard application works on plain JavaScript numbers
  (timestamps and durations in milliseconds, unitless multipliers).  They are
  modelled as \<^typ>\<open>real\<close>: IEEE rounding, NaN and the infinities are outside
  the model.  The model and the code agree wherever the sums are exact in
  binary64, as they are for timestamps and intervals of whole milliseconds;
  an interval far below one millisecond is absorbed by the code's addition to
  a timestamp and is not by the model's.  Every reading of the clock
  (\<^verbatim>\<open>Date.now()\<close>, a whole number of milliseconds) is an explicit argument
  of the function that reads it.
\<close>

datatype ResponseType = WRONG | AGAIN | HARD | CORRECT | EASY

record StudyLog =
  logId :: string
  cardId :: string
  deckId :: string
  studiedAt :: real
  responseTime :: real
  responseType :: ResponseType
  nextReviewDate :: real

section \<open>Interval calculator\<close>

definition DEFAULT_INTERVALS :: "ResponseType \<Rightarrow> real" where
  "DEFAULT_INTERVALS rt =
     (case rt of
        WRONG \<Rightarrow> 1000 * 60 * 60
      | AGAIN \<Rightarrow> 1000 * 60 * 60 * 6
      | HARD \<Rightarrow> 1000 * 60 * 60 * 24
      | CORRECT \<Rightarrow> 1000 * 60 * 60 * 24 * 3
      | EASY \<Rightarrow> 1000 * 60 * 60 * 24 * 7)"

definition DEFAULT_MULTIPLIERS :: "ResponseType \<Rightarrow> real" where
  "DEFAULT_MULTIPLIERS rt =
     (case rt of
        WRONG \<Rightarrow> 1.1
      | AGAIN \<Rightarrow> 1.2
      | HARD \<Rightarrow> 1.5
      | CORRECT \<Rightarrow> 2.0
      | EASY \<Rightarrow> 2.5)"

definition EASE_FACTORS :: "ResponseType \<Rightarrow> real" where
  "EASE_FACTORS rt =
     (case rt of WRONG \<Rightarrow> 0 | AGAIN \<Rightarrow> 1 | HARD \<Rightarrow> 2 | CORRECT \<Rightarrow> 3 | EASY \<Rightarrow> 5)"

definition MAX_INTERVAL :: real where
  "MAX_INTERVAL = 1000 * 60 * 60 * 24 * 180"

text \<open>
  The loop over \<^verbatim>\<open>cardLogs\<close> that counts the leading run of CORRECT or EASY
  answers and stops at the first other answer.
\<close>

fun consecutiveCorrect :: "StudyLog list \<Rightarrow> nat" where
  "consecutiveCorrect [] = 0"
| "consecutiveCorrect (lg # rest) =
     (if responseType lg = CORRECT \<or> responseType lg = EASY
      then Suc (consecutiveCorrect rest) else 0)"

text \<open>
  The body of the branch \<^verbatim>\<open>if (cardLogs.length > 0)\<close>:  the interval computed
  from \<^verbatim>\<open>lastLog = cardLogs[0]\<close> and the whole of \<^verbatim>\<open>cardLogs\<close>.
\<close>

definition intervalFromHistory ::
  "real \<Rightarrow> ResponseType \<Rightarrow> StudyLog \<Rightarrow> StudyLog list \<Rightarrow>
   (ResponseType \<Rightarrow> real) \<Rightarrow> (ResponseType \<Rightarrow> real) \<Rightarrow> real" where
  "intervalFromHistory now rt lastLog cardLogs intervals multipliers =
     (let interval = intervals rt;
          adjustedMultiplier = multipliers rt;
          scheduledReviewDate = nextReviewDate lastLog;
          adjustedMultiplier =
            (if now < scheduledReviewDate then adjustedMultiplier * 0.9
             else if now > scheduledReviewDate + 1000 * 60 * 60 * 24 * 7
                  then adjustedMultiplier * 0.7
                  else adjustedMultiplier);
          n = consecutiveCorrect cardLogs;
          adjustedMultiplier =
            (if n > 0 then adjustedMultiplier * (1 + real n * 0.1)
             else adjustedMultiplier);
          previousInterval = nextReviewDate lastLog - studiedAt lastLog
      in if rt = WRONG then intervals WRONG
         else max (previousInterval * adjustedMultiplier) interval)"

text \<open>
  \<^verbatim>\<open>calculateNextReviewDate\<close>; \<open>now\<close> is its reading of the clock.  The
  two values the source computes and never uses (the time and the days since
  the last review) are left out.
\<close>

definition calculateNextReviewDate ::
  "real \<Rightarrow> string \<Rightarrow> ResponseType \<Rightarrow> StudyLog list \<Rightarrow>
   (ResponseType \<Rightarrow> real) \<Rightarrow> (ResponseType \<Rightarrow> real) \<Rightarrow> real" where
  "calculateNextReviewDate now cid rt previousLogs intervals multipliers =
     (let interval = intervals rt;
          cardLogs = filter (\<lambda>lg. cardId lg = cid) previousLogs;
          interval =
            (case cardLogs of
               [] \<Rightarrow> interval
             | lastLog # _ \<Rightarrow>
                 intervalFromHistory now rt lastLog cardLogs intervals multipliers)
      in now + min interval MAX_INTERVAL)"

section \<open>Success rate\<close>

definition calculateSuccessRate :: "ResponseType \<Rightarrow> real \<Rightarrow> real" where
  "calculateSuccessRate rt rtime =
     (let baseFactor = EASE_FACTORS rt;
          timeFactor = (if rtime > 10000 then 0.9
                        else if rtime > 20000 then 0.7
                        else 1.0);
          successRate = (baseFactor / 5) * 100 * timeFactor
      in max 0 (min 100 successRate))"

section \<open>Daily queue selector\<close>

text \<open>
  \<^verbatim>\<open>Array.from(new Set(xs))\<close>: a JavaScript Set keeps insertion order, so the
  array holds the first occurrence of every element, in the order of \<open>xs\<close>.
\<close>

definition Array_from_Set :: "'a list \<Rightarrow> 'a list" where
  "Array_from_Set xs = foldl (\<lambda>acc x. if x \<in> set acc then acc else acc @ [x]) [] xs"

text \<open>
  \<^verbatim>\<open>ToIntegerOrInfinity\<close> of a finite number truncates towards zero.
\<close>

definition ToIntegerOrInfinity :: "real \<Rightarrow> int" where
  "ToIntegerOrInfinity x = (if x < 0 then - \<lfloor>- x\<rfloor> else \<lfloor>x\<rfloor>)"

text \<open>
  \<^verbatim>\<open>xs.slice(0, end)\<close>: a negative \<open>end\<close> counts from the end of the array, an
  \<open>end\<close> beyond the length stops at the length.
\<close>

definition Array_slice :: "'a list \<Rightarrow> real \<Rightarrow> 'a list" where
  "Array_slice xs end =
     (let len = int (length xs);
          relativeEnd = ToIntegerOrInfinity end;
          final = (if relativeEnd < 0 then max (len + relativeEnd) 0
                   else min relativeEnd len)
      in take (nat final) xs)"

record TodayCards =
  newCardIds :: "string list"
  reviewCardIds :: "string list"

text \<open>
  \<open>todayStart\<close> and \<open>tomorrowStart\<close> are the two local midnights the function
  derives from \<open>now\<close> through the \<^verbatim>\<open>Date\<close> object (they depend on the time
  zone of the device); they are arguments of the model.
\<close>

definition calculateTodayCards ::
  "real \<Rightarrow> real \<Rightarrow> real \<Rightarrow> StudyLog list \<Rightarrow> real \<Rightarrow> real \<Rightarrow> string list \<Rightarrow> TodayCards" where
  "calculateTodayCards now todayStart tomorrowStart logs newCardsPerDay reviewCardsPerDay allCardIds =
     (let studiedCardIds = set (map cardId logs);
          newIds = filter (\<lambda>i. i \<notin> studiedCardIds) allCardIds;
          reviewIds = Array_from_Set
            (map cardId
              (filter
                (\<lambda>lg. let todayLogs = filter
                            (\<lambda>l. cardId l = cardId lg \<and> studiedAt l \<ge> todayStart
                                 \<and> studiedAt l < tomorrowStart) logs
                       in length todayLogs = 0)
                (filter (\<lambda>lg. nextReviewDate lg \<le> now) logs)))
      in \<lparr> newCardIds = Array_slice newIds newCardsPerDay,
           reviewCardIds = Array_slice reviewIds reviewCardsPerDay \<rparr>)"

section \<open>Log storage\<close>

text \<open>
  The key-value store behind \<^verbatim>\<open>LogStorage\<close>: the value stored under the key of
  the study logs (absent before the first write), and whether the next read or
  write of the store throws.
\<close>

record AsyncStorage =
  STUDY_LOGS :: "StudyLog list option"
  getItem_throws :: bool
  setItem_throws :: bool

definition LogStorage_getAll :: "AsyncStorage \<Rightarrow> StudyLog list" where
  "LogStorage_getAll st =
     (if getItem_throws st then []
      else case STUDY_LOGS st of None \<Rightarrow> [] | Some ls \<Rightarrow> ls)"

text \<open>
  \<^verbatim>\<open>LogStorage.save\<close> catches every error of the store and reports it as the
  result \<open>False\<close>; it never throws.
\<close>

definition LogStorage_save :: "AsyncStorage \<Rightarrow> StudyLog \<Rightarrow> bool \<times> AsyncStorage" where
  "LogStorage_save st lg =
     (let ls = LogStorage_getAll st @ [lg]
      in if setItem_throws st then (False, st)
         else (True, st\<lparr>STUDY_LOGS := Some ls\<rparr>))"

section \<open>Session hook\<close>

record WordCard =
  card_id :: string
  word :: string

record Deck =
  deck_id :: string
  cardIds :: "string list"

record ReviewIntervals =
  wrong :: real
  again :: real
  hard :: real
  correct :: real
  easy :: real
  wrongMultiplier :: real
  againMultiplier :: real
  hardMultiplier :: real
  correctMultiplier :: real
  easyMultiplier :: real

record UserSettings =
  newCardsPerDay :: real
  reviewCardsPerDay :: real
  reviewIntervals :: ReviewIntervals

record Progress =
  completed :: nat
  total :: nat

record SessionStats =
  stats_correct :: nat
  stats_incorrect :: nat
  stats_again :: nat
  stats_hard :: nat
  stats_easy :: nat

record Session =
  deck :: "Deck option"
  cards :: "WordCard list"
  studyCards :: "WordCard list"
  currentCardIndex :: nat
  currentCard :: "WordCard option"
  logs :: "StudyLog list"
  settings :: "UserSettings option"
  isLoading :: bool
  progress :: Progress
  sessionStats :: SessionStats

definition DEFAULT_REVIEW_INTERVALS :: ReviewIntervals where
  "DEFAULT_REVIEW_INTERVALS =
     \<lparr> wrong = 60, again = 360, hard = 1440, correct = 4320, easy = 10080,
       wrongMultiplier = 1.1, againMultiplier = 1.2, hardMultiplier = 1.5,
       correctMultiplier = 2.0, easyMultiplier = 2.5 \<rparr>"

definition DEFAULT_USER_SETTINGS :: UserSettings where
  "DEFAULT_USER_SETTINGS =
     \<lparr> newCardsPerDay = 20, reviewCardsPerDay = 100,
       reviewIntervals = DEFAULT_REVIEW_INTERVALS \<rparr>"

text \<open>
  The two tables \<^verbatim>\<open>handleResponse\<close> builds from the settings: base intervals in
  milliseconds (the settings hold minutes) and multipliers.
\<close>

definition settingsIntervals :: "UserSettings \<Rightarrow> ResponseType \<Rightarrow> real" where
  "settingsIntervals cfg rt =
     (case rt of
        WRONG \<Rightarrow> wrong (reviewIntervals cfg) * 60 * 1000
      | AGAIN \<Rightarrow> again (reviewIntervals cfg) * 60 * 1000
      | HARD \<Rightarrow> hard (reviewIntervals cfg) * 60 * 1000
      | CORRECT \<Rightarrow> correct (reviewIntervals cfg) * 60 * 1000
      | EASY \<Rightarrow> easy (reviewIntervals cfg) * 60 * 1000)"

definition settingsMultipliers :: "UserSettings \<Rightarrow> ResponseType \<Rightarrow> real" where
  "settingsMultipliers cfg rt =
     (case rt of
        WRONG \<Rightarrow> wrongMultiplier (reviewIntervals cfg)
      | AGAIN \<Rightarrow> againMultiplier (reviewIntervals cfg)
      | HARD \<Rightarrow> hardMultiplier (reviewIntervals cfg)
      | CORRECT \<Rightarrow> correctMultiplier (reviewIntervals cfg)
      | EASY \<Rightarrow> easyMultiplier (reviewIntervals cfg))"

definition updateStats :: "ResponseType \<Rightarrow> SessionStats \<Rightarrow> SessionStats" where
  "updateStats rt prev =
     (case rt of
        CORRECT \<Rightarrow> prev\<lparr>stats_correct := stats_correct prev + 1\<rparr>
      | WRONG \<Rightarrow> prev\<lparr>stats_incorrect := stats_incorrect prev + 1\<rparr>
      | AGAIN \<Rightarrow> prev\<lparr>stats_again := stats_again prev + 1\<rparr>
      | HARD \<Rightarrow> prev\<lparr>stats_hard := stats_hard prev + 1\<rparr>
      | EASY \<Rightarrow> prev\<lparr>stats_easy := stats_easy prev + 1\<rparr>)"

text \<open>
  The log \<^verbatim>\<open>handleResponse\<close> builds for the current card.  \<open>now\<close> is the clock
  as \<^verbatim>\<open>calculateNextReviewDate\<close> reads it, \<open>now'\<close> the later reading stored as
  \<^verbatim>\<open>studiedAt\<close>, \<open>uuid\<close> the fresh identifier.
\<close>

definition newStudyLog ::
  "Session \<Rightarrow> WordCard \<Rightarrow> Deck \<Rightarrow> UserSettings \<Rightarrow> string \<Rightarrow> real \<Rightarrow> real \<Rightarrow>
   ResponseType \<Rightarrow> real \<Rightarrow> StudyLog" where
  "newStudyLog s cur d cfg uuid now now' rt rtime =
     (let cardLogs = filter (\<lambda>lg. cardId lg = card_id cur) (logs s);
          next = calculateNextReviewDate now (card_id cur) rt cardLogs
                   (settingsIntervals cfg) (settingsMultipliers cfg)
      in \<lparr> logId = uuid, cardId = card_id cur, deckId = deck_id d, studiedAt = now',
           responseTime = rtime, responseType = rt, nextReviewDate = next \<rparr>)"

text \<open>
  \<^verbatim>\<open>handleResponse\<close>, with the state of the hook and the store passed in and
  returned.  The result of \<^verbatim>\<open>LogStorage.save\<close> is awaited and dropped; nothing
  in the \<^verbatim>\<open>try\<close> block throws, so its \<^verbatim>\<open>catch\<close> branch has no counterpart here.
\<close>

definition handleResponse ::
  "Session \<Rightarrow> AsyncStorage \<Rightarrow> string \<Rightarrow> real \<Rightarrow> real \<Rightarrow> ResponseType \<Rightarrow> real \<Rightarrow>
   Session \<times> AsyncStorage" where
  "handleResponse s st uuid now now' rt rtime =
     (case currentCard s of None \<Rightarrow> (s, st) | Some cur \<Rightarrow>
     (case deck s of None \<Rightarrow> (s, st) | Some d \<Rightarrow>
     (case settings s of None \<Rightarrow> (s, st) | Some cfg \<Rightarrow>
        (let studyLog = newStudyLog s cur d cfg uuid now now' rt rtime;
             saved = LogStorage_save st studyLog;
             nextIndex = currentCardIndex s + 1
         in (s\<lparr> logs := logs s @ [studyLog],
                sessionStats := updateStats rt (sessionStats s),
                currentCardIndex := nextIndex,
                progress := (progress s)\<lparr>completed := completed (progress s) + 1\<rparr>,
                currentCard := (if nextIndex < length (studyCards s)
                                then Some (studyCards s ! nextIndex) else None) \<rparr>,
             snd saved)))))"

text \<open>
  The state of the hook before its first effect has run (the initial values of
  its \<^verbatim>\<open>useState\<close> cells).
\<close>

definition initialSession :: Session where
  "initialSession =
     \<lparr> deck = None, cards = [], studyCards = [], currentCardIndex = 0,
       currentCard = None, logs = [], settings = None, isLoading = True,
       progress = \<lparr> completed = 0, total = 0 \<rparr>,
       sessionStats = \<lparr> stats_correct = 0, stats_incorrect = 0, stats_again = 0,
                        stats_hard = 0, stats_easy = 0 \<rparr> \<rparr>"

text \<open>
  \<^verbatim>\<open>loadDeckAndCards\<close>, the effect that runs when the hook is mounted and again
  whenever \<^verbatim>\<open>deckId\<close> changes, on the state \<open>s\<close> the hook then has.  The
  results of its four reads of the store are arguments: the settings, the deck
  found for \<^verbatim>\<open>deckId\<close> (\<open>None\<close> when there is none: the effect then throws
  and stops after the settings are set), all cards and all logs.  \<open>shuffle\<close>
  stands for the sort with a random comparator.  The current card is set only
  when the queue is not empty; there is no other branch.
\<close>

definition loadDeckAndCards ::
  "(WordCard list \<Rightarrow> WordCard list) \<Rightarrow> real \<Rightarrow> real \<Rightarrow> real \<Rightarrow> UserSettings \<Rightarrow>
   Deck option \<Rightarrow> WordCard list \<Rightarrow> StudyLog list \<Rightarrow> Session \<Rightarrow> Session" where
  "loadDeckAndCards shuffle now todayStart tomorrowStart userSettings deckData allCards
     studyLogs s =
     (case deckData of
        None \<Rightarrow> s\<lparr> settings := Some userSettings, isLoading := False \<rparr>
      | Some d \<Rightarrow>
        (let deckCards = filter (\<lambda>c. card_id c \<in> set (cardIds d)) allCards;
             today = calculateTodayCards now todayStart tomorrowStart studyLogs
                       (newCardsPerDay userSettings) (reviewCardsPerDay userSettings)
                       (cardIds d);
             todayCardIds = reviewCardIds today @ newCardIds today;
             todayCards = filter (\<lambda>c. card_id c \<in> set todayCardIds) allCards;
             shuffledCards = shuffle todayCards
         in s\<lparr> settings := Some userSettings,
               deck := Some d,
               cards := deckCards,
               logs := studyLogs,
               studyCards := shuffledCards,
               progress := \<lparr> completed = 0, total = length shuffledCards \<rparr>,
               currentCard := (if length shuffledCards > 0 then Some (shuffledCards ! 0)
                               else currentCard s),
               isLoading := False \<rparr>))"

text \<open>
  \<^verbatim>\<open>resetSession\<close>.  \<open>shuffle\<close> stands for the sort with a random comparator.
\<close>

definition resetSession ::
  "(WordCard list \<Rightarrow> WordCard list) \<Rightarrow> real \<Rightarrow> real \<Rightarrow> real \<Rightarrow> Session \<Rightarrow> Session" where
  "resetSession shuffle now todayStart tomorrowStart s =
     (case settings s of None \<Rightarrow> s\<lparr>isLoading := False\<rparr> | Some cfg \<Rightarrow>
     (case deck s of None \<Rightarrow> s\<lparr>isLoading := False\<rparr> | Some d \<Rightarrow>
        (let today = calculateTodayCards now todayStart tomorrowStart (logs s)
                       (newCardsPerDay cfg) (reviewCardsPerDay cfg) (cardIds d);
             todayCardIds = reviewCardIds today @ newCardIds today;
             todayCards = filter (\<lambda>c. card_id c \<in> set todayCardIds) (cards s);
             shuffledCards = shuffle todayCards
         in s\<lparr> studyCards := shuffledCards,
               progress := \<lparr> completed = 0, total = length shuffledCards \<rparr>,
               sessionStats := \<lparr> stats_correct = 0, stats_incorrect = 0, stats_again = 0,
                                  stats_hard = 0, stats_easy = 0 \<rparr>,
               currentCardIndex := 0,
               currentCard := (if length shuffledCards > 0 then Some (shuffledCards ! 0)
                               else None),
               isLoading := False \<rparr>)))"

definition isSessionComplete :: "Session \<Rightarrow> bool" where
  "isSessionComplete s =
     (completed (progress s) = total (progress s) \<and> total (progress s) > 0)"

section \<open>Example data\<close>

text \<open>
  Concrete values on which the functions above are evaluated below: two logs
  of card \<open>a\<close> (answered at day 0 and due at day 10; answered at day 10 and
  due at day 11), a deck of two cards, and a session showing the first card.
\<close>

definition example_log_old :: StudyLog where
  "example_log_old =
     \<lparr> logId = ''log-1'', cardId = ''a'', deckId = ''d'', studiedAt = 0,
       responseTime = 1000, responseType = HARD, nextReviewDate = 864000000 \<rparr>"

definition example_log_recent :: StudyLog where
  "example_log_recent =
     \<lparr> logId = ''log-2'', cardId = ''a'', deckId = ''d'', studiedAt = 864000000,
       responseTime = 1000, responseType = HARD, nextReviewDate = 950400000 \<rparr>"

text \<open>
  The history the session hook records with the default settings for a card
  answered CORRECT at day 0 (due at day 3) and EASY at day 3 (due at day
  11.25), in the order of the store.
\<close>

definition example_log_day0 :: StudyLog where
  "example_log_day0 =
     \<lparr> logId = ''log-a'', cardId = ''a'', deckId = ''d'', studiedAt = 0,
       responseTime = 1000, responseType = CORRECT, nextReviewDate = 259200000 \<rparr>"

definition example_log_day3 :: StudyLog where
  "example_log_day3 =
     \<lparr> logId = ''log-b'', cardId = ''a'', deckId = ''d'', studiedAt = 259200000,
       responseTime = 1000, responseType = EASY, nextReviewDate = 972000000 \<rparr>"

definition example_card_a :: WordCard where
  "example_card_a = \<lparr> card_id = ''a'', word = ''apple'' \<rparr>"

definition example_card_b :: WordCard where
  "example_card_b = \<lparr> card_id = ''b'', word = ''bread'' \<rparr>"

definition example_deck :: Deck where
  "example_deck = \<lparr> deck_id = ''d'', cardIds = [''a'', ''b''] \<rparr>"

text \<open>A deck that holds no card yet.\<close>

definition example_deck_empty :: Deck where
  "example_deck_empty = \<lparr> deck_id = ''e'', cardIds = [] \<rparr>"

definition example_session :: Session where
  "example_session =
     \<lparr> deck = Some example_deck,
       cards = [example_card_a, example_card_b],
       studyCards = [example_card_a, example_card_b],
       currentCardIndex = 0,
       currentCard = Some example_card_a,
       logs = [],
       settings = Some DEFAULT_USER_SETTINGS,
       isLoading = False,
       progress = \<lparr> completed = 0, total = 2 \<rparr>,
       sessionStats = \<lparr> stats_correct = 0, stats_incorrect = 0, stats_again = 0,
                        stats_hard = 0, stats_easy = 0 \<rparr> \<rparr>"

text \<open>A store whose writes fail, and one whose writes succeed.\<close>

definition example_store_failing :: AsyncStorage where
  "example_store_failing =
     \<lparr> STUDY_LOGS = Some [], getItem_throws = False, setItem_throws = True \<rparr>"

definition example_store_working :: AsyncStorage where
  "example_store_working =
     \<lparr> STUDY_LOGS = Some [], getItem_throws = False, setItem_throws = False \<rparr>"

section \<open>Properties of the interval calculator\<close>

lemma calculateNextReviewDate_no_history:
  "filter (\<lambda>lg. cardId lg = cid) previousLogs = [] \<Longrightarrow>
   calculateNextReviewDate now cid rt previousLogs intervals multipliers
     = now + min (intervals rt) MAX_INTERVAL"
  by (simp add: calculateNextReviewDate_def)

lemma intervalFromHistory_WRONG:
  "intervalFromHistory now WRONG lastLog cardLogs intervals multipliers = intervals WRONG"
  by (simp add: intervalFromHistory_def Let_def)

lemma intervalFromHistory_floor:
  "rt \<noteq> WRONG \<Longrightarrow>
   intervals rt \<le> intervalFromHistory now rt lastLog cardLogs intervals multipliers"
  by (simp add: intervalFromHistory_def Let_def)

lemma calculateNextReviewDate_WRONG:
  "calculateNextReviewDate now cid WRONG previousLogs intervals multipliers
     = now + min (intervals WRONG) MAX_INTERVAL"
  by (simp add: calculateNextReviewDate_def Let_def intervalFromHistory_WRONG split: list.split)

lemma calculateNextReviewDate_lower:
  "now + min (intervals rt) MAX_INTERVAL
     \<le> calculateNextReviewDate now cid rt previousLogs intervals multipliers"
proof (cases "rt = WRONG")
  case True
  then show ?thesis by (simp add: calculateNextReviewDate_WRONG)
next
  case False
  show ?thesis
  proof (cases "filter (\<lambda>lg. cardId lg = cid) previousLogs")
    case Nil
    then show ?thesis by (simp add: calculateNextReviewDate_no_history)
  next
    case (Cons lastLog rest)
    have "intervals rt \<le> intervalFromHistory now rt lastLog (lastLog # rest) intervals multipliers"
      using False by (rule intervalFromHistory_floor)
    then show ?thesis
      using Cons by (simp add: calculateNextReviewDate_def Let_def min_le_iff_disj)
  qed
qed

text \<open>
  Claim C7, as stated, fails once the base interval of WRONG is above the
  ceiling of 180 days: with a base interval of 200 days the result is the clock
  plus 180 days.
\<close>

theorem calculateNextReviewDate_WRONG_counterexample:
  "calculateNextReviewDate 1728000000 ''a'' WRONG [example_log_recent]
     (DEFAULT_INTERVALS(WRONG := 17280000000)) DEFAULT_MULTIPLIERS
   \<noteq> 1728000000 + (DEFAULT_INTERVALS(WRONG := 17280000000)) WRONG"
  by (simp add: calculateNextReviewDate_def intervalFromHistory_def Let_def
      example_log_recent_def MAX_INTERVAL_def)

text \<open>
  Claim C7 (amended).  For the response WRONG, whatever the history of the card
  and whatever the multipliers, the result is the clock plus the smaller of the
  base interval of WRONG and the ceiling of 180 days; it is exactly the clock
  plus the base interval of WRONG when that interval is at most 180 days.
\<close>

theorem calculateNextReviewDate_WRONG_resets:
  "calculateNextReviewDate now cid WRONG previousLogs intervals multipliers
     = now + min (intervals WRONG) MAX_INTERVAL
   \<and> (intervals WRONG \<le> MAX_INTERVAL \<longrightarrow>
        calculateNextReviewDate now cid WRONG previousLogs intervals multipliers
          = now + intervals WRONG)"
  by (simp add: calculateNextReviewDate_WRONG)

theorem calculateNextReviewDate_WRONG_resets_witness:
  "DEFAULT_INTERVALS WRONG \<le> MAX_INTERVAL
   \<and> calculateNextReviewDate 1728000000 ''a'' WRONG [example_log_recent, example_log_old]
         DEFAULT_INTERVALS DEFAULT_MULTIPLIERS
       = 1728000000 + DEFAULT_INTERVALS WRONG"
proof -
  have h: "DEFAULT_INTERVALS WRONG \<le> MAX_INTERVAL"
    by (simp add: DEFAULT_INTERVALS_def MAX_INTERVAL_def)
  show ?thesis
    using h calculateNextReviewDate_WRONG_resets
      [of 1728000000 "''a''" "[example_log_recent, example_log_old]"
          DEFAULT_INTERVALS DEFAULT_MULTIPLIERS]
    by simp
qed

text \<open>
  Claim C8, as stated, fails for a base interval above 180 days: a first answer
  EASY with a base interval of 200 days is scheduled 180 days ahead.
\<close>

theorem calculateNextReviewDate_first_exposure_counterexample:
  "calculateNextReviewDate 1728000000 ''a'' EASY []
     (DEFAULT_INTERVALS(EASY := 17280000000)) DEFAULT_MULTIPLIERS
   \<noteq> 1728000000 + (DEFAULT_INTERVALS(EASY := 17280000000)) EASY"
  by (simp add: calculateNextReviewDate_def MAX_INTERVAL_def)

text \<open>
  Claim C8 (amended).  When the card has no prior log, the result is the clock
  plus the smaller of the base interval of the response and 180 days, with no
  multiplier applied; it is exactly the clock plus the base interval when that
  interval is at most 180 days.
\<close>

theorem calculateNextReviewDate_first_exposure:
  "filter (\<lambda>lg. cardId lg = cid) previousLogs = [] \<Longrightarrow>
   calculateNextReviewDate now cid rt previousLogs intervals multipliers
     = now + min (intervals rt) MAX_INTERVAL
   \<and> (intervals rt \<le> MAX_INTERVAL \<longrightarrow>
        calculateNextReviewDate now cid rt previousLogs intervals multipliers
          = now + intervals rt)"
  by (simp add: calculateNextReviewDate_no_history)

theorem calculateNextReviewDate_first_exposure_witness:
  "filter (\<lambda>lg. cardId lg = ''b'') [example_log_old] = []
   \<and> DEFAULT_INTERVALS EASY \<le> MAX_INTERVAL
   \<and> calculateNextReviewDate 1728000000 ''b'' EASY [example_log_old]
         DEFAULT_INTERVALS DEFAULT_MULTIPLIERS
       = 1728000000 + DEFAULT_INTERVALS EASY"
proof -
  have h1: "filter (\<lambda>lg. cardId lg = ''b'') [example_log_old] = []"
    by (simp add: example_log_old_def)
  have h2: "DEFAULT_INTERVALS EASY \<le> MAX_INTERVAL"
    by (simp add: DEFAULT_INTERVALS_def MAX_INTERVAL_def)
  show ?thesis
    using h1 h2 calculateNextReviewDate_first_exposure
      [OF h1, of 1728000000 EASY DEFAULT_INTERVALS DEFAULT_MULTIPLIERS]
    by simp
qed

text \<open>
  Claim C9, as stated, fails for a base interval above 180 days: the interval
  computed for HARD with a base interval of 200 days is 180 days.
\<close>

theorem calculateNextReviewDate_floor_counterexample:
  "calculateNextReviewDate 1728000000 ''a'' HARD [example_log_recent]
     (DEFAULT_INTERVALS(HARD := 17280000000)) DEFAULT_MULTIPLIERS - 1728000000
   < (DEFAULT_INTERVALS(HARD := 17280000000)) HARD"
  by (simp add: calculateNextReviewDate_def intervalFromHistory_def Let_def
      example_log_recent_def MAX_INTERVAL_def DEFAULT_MULTIPLIERS_def)

text \<open>
  Claim C9 (amended).  For every response other than WRONG, every history and
  every configuration, the computed interval (the result minus the clock) is at
  least the smaller of the base interval of the response and 180 days; it is at
  least the base interval when that interval is at most 180 days.
\<close>

theorem calculateNextReviewDate_floor:
  "rt \<noteq> WRONG \<Longrightarrow>
   min (intervals rt) MAX_INTERVAL
     \<le> calculateNextReviewDate now cid rt previousLogs intervals multipliers - now
   \<and> (intervals rt \<le> MAX_INTERVAL \<longrightarrow>
        intervals rt
          \<le> calculateNextReviewDate now cid rt previousLogs intervals multipliers - now)"
  using calculateNextReviewDate_lower [of now intervals rt cid previousLogs multipliers]
  by auto

theorem calculateNextReviewDate_floor_witness:
  "CORRECT \<noteq> WRONG
   \<and> DEFAULT_INTERVALS CORRECT \<le> MAX_INTERVAL
   \<and> DEFAULT_INTERVALS CORRECT
       \<le> calculateNextReviewDate 1728000000 ''a'' CORRECT [example_log_recent, example_log_old]
            DEFAULT_INTERVALS DEFAULT_MULTIPLIERS - 1728000000"
proof -
  have h1: "CORRECT \<noteq> WRONG" by simp
  have h2: "DEFAULT_INTERVALS CORRECT \<le> MAX_INTERVAL"
    by (simp add: DEFAULT_INTERVALS_def MAX_INTERVAL_def)
  show ?thesis
    using h1 h2 calculateNextReviewDate_floor
      [OF h1, of DEFAULT_INTERVALS 1728000000 "''a''"
          "[example_log_recent, example_log_old]" DEFAULT_MULTIPLIERS]
    by simp
qed

section \<open>Properties of the daily queue selector\<close>

lemma ToIntegerOrInfinity_nonneg: "0 \<le> e \<Longrightarrow> ToIntegerOrInfinity e = \<lfloor>e\<rfloor>"
  by (simp add: ToIntegerOrInfinity_def)

lemma length_Array_slice_le:
  assumes "0 \<le> e"
  shows "real (length (Array_slice xs e)) \<le> e"
proof -
  have f0: "0 \<le> \<lfloor>e\<rfloor>" using assms by simp
  have "length (Array_slice xs e) \<le> nat \<lfloor>e\<rfloor>"
    using assms f0 by (simp add: Array_slice_def Let_def ToIntegerOrInfinity_nonneg)
  then have "real (length (Array_slice xs e)) \<le> real (nat \<lfloor>e\<rfloor>)"
    by simp
  also have "\<dots> = of_int \<lfloor>e\<rfloor>" using f0 by simp
  also have "\<dots> \<le> e" by simp
  finally show ?thesis .
qed

lemma Array_slice_zero: "Array_slice xs 0 = []"
  by (simp add: Array_slice_def ToIntegerOrInfinity_def)

text \<open>
  Claim C2 fails on the code.  With the default settings the session hook
  records for card \<open>a\<close>, answered CORRECT at day 0 and EASY at day 3, a first
  log due at day 3 and a second log due at day 11.25.  At day 4.5, with no
  answer inside today's window, the most recent log of the card is not due,
  and \<open>calculateTodayCards\<close> selects the card for review all the same, through
  its first log: it tests every log, where the claim and the other screens of
  the application test the most recent log of each card.
\<close>

theorem reviewCardIds_selects_card_not_due:
  "calculateNextReviewDate 0 ''a'' CORRECT [] DEFAULT_INTERVALS DEFAULT_MULTIPLIERS
     = nextReviewDate example_log_day0
   \<and> calculateNextReviewDate 259200000 ''a'' EASY [example_log_day0]
       DEFAULT_INTERVALS DEFAULT_MULTIPLIERS
     = nextReviewDate example_log_day3
   \<and> studiedAt example_log_day0 < studiedAt example_log_day3
   \<and> \<not> nextReviewDate example_log_day3 \<le> 388800000
   \<and> reviewCardIds
        (calculateTodayCards 388800000 367200000 453600000
           [example_log_day0, example_log_day3] 20 100 [''a'', ''b''])
     = [''a'']"
  by (simp add: calculateNextReviewDate_def intervalFromHistory_def Let_def
      calculateTodayCards_def Array_from_Set_def Array_slice_def ToIntegerOrInfinity_def
      example_log_day0_def example_log_day3_def MAX_INTERVAL_def
      DEFAULT_INTERVALS_def DEFAULT_MULTIPLIERS_def)

text \<open>
  Claim C4, as stated, fails for a negative cap: \<^verbatim>\<open>slice(0, -1)\<close> drops the
  last element only, so three new cards and a cap of \<open>-1\<close> give two new cards.
\<close>

theorem calculateTodayCards_negative_cap_counterexample:
  "\<not> real (length (newCardIds
        (calculateTodayCards 907200000 885600000 972000000 [] (- 1) 100
           [''a'', ''b'', ''c'']))) \<le> - 1
   \<and> newCardIds (calculateTodayCards 907200000 885600000 972000000 [] (- 1) 100
        [''a'', ''b'', ''c'']) = [''a'', ''b'']"
  by (simp add: calculateTodayCards_def Array_from_Set_def Array_slice_def
      ToIntegerOrInfinity_def)

text \<open>
  Claim C4 (amended).  For all inputs with a cap that is not negative, the
  length of \<open>newCardIds\<close> is at most \<open>newCardsPerDay\<close> and the length of
  \<open>reviewCardIds\<close> is at most \<open>reviewCardsPerDay\<close>; a cap of 0 yields the
  corresponding list empty.
\<close>

theorem calculateTodayCards_caps:
  "(0 \<le> newCap \<longrightarrow>
      real (length (newCardIds (calculateTodayCards now todayStart tomorrowStart allLogs
         newCap reviewCap allCardIds))) \<le> newCap)
   \<and> (0 \<le> reviewCap \<longrightarrow>
      real (length (reviewCardIds (calculateTodayCards now todayStart tomorrowStart allLogs
         newCap reviewCap allCardIds))) \<le> reviewCap)
   \<and> (newCap = 0 \<longrightarrow>
      newCardIds (calculateTodayCards now todayStart tomorrowStart allLogs
         newCap reviewCap allCardIds) = [])
   \<and> (reviewCap = 0 \<longrightarrow>
      reviewCardIds (calculateTodayCards now todayStart tomorrowStart allLogs
         newCap reviewCap allCardIds) = [])"
  by (simp add: calculateTodayCards_def Let_def length_Array_slice_le Array_slice_zero)

theorem calculateTodayCards_caps_witness:
  "(0::real) \<le> 1
   \<and> real (length (newCardIds (calculateTodayCards 907200000 885600000 972000000
         [example_log_old] 1 0 [''a'', ''b'', ''c'']))) \<le> 1
   \<and> newCardIds (calculateTodayCards 907200000 885600000 972000000
         [example_log_old] 1 0 [''a'', ''b'', ''c'']) = [''b'']
   \<and> reviewCardIds (calculateTodayCards 907200000 885600000 972000000
         [example_log_old] 1 0 [''a'', ''b'', ''c'']) = []"
proof -
  have e: "newCardIds (calculateTodayCards 907200000 885600000 972000000
         [example_log_old] 1 0 [''a'', ''b'', ''c'']) = [''b'']"
    by (simp add: calculateTodayCards_def Array_from_Set_def Array_slice_def
      ToIntegerOrInfinity_def example_log_old_def)
  show ?thesis
    using e calculateTodayCards_caps [of 1 907200000 885600000 972000000
         "[example_log_old]" 0 "[''a'', ''b'', ''c'']"]
    by simp
qed

section \<open>Order of the prior logs, success rate\<close>





text \<open>
  Claim C5 fails on the code: the test for 20 seconds sits in the \<^verbatim>\<open>else\<close>
  branch of the test for 10 seconds and is never reached.  An answer EASY after
  25 seconds scores 90, where the claim gives \<open>(5 / 5) * 100 * 0.7 = 70\<close>.
\<close>

theorem calculateSuccessRate_over_20s:
  "calculateSuccessRate EASY 25000 = 90"
  by (simp add: calculateSuccessRate_def EASE_FACTORS_def)

text \<open>
  Claim C6, as stated, fails: a session loaded on a deck that holds no card has
  a total of zero and does not report itself complete.
\<close>

theorem isSessionComplete_empty_queue_counterexample:
  "total (progress (loadDeckAndCards rev 388800000 367200000 453600000
      DEFAULT_USER_SETTINGS (Some example_deck_empty) [example_card_a, example_card_b] []
      initialSession)) = 0
   \<and> \<not> isSessionComplete (loadDeckAndCards rev 388800000 367200000 453600000
      DEFAULT_USER_SETTINGS (Some example_deck_empty) [example_card_a, example_card_b] []
      initialSession)"
  by (simp add: loadDeckAndCards_def isSessionComplete_def calculateTodayCards_def
      Array_from_Set_def Array_slice_def ToIntegerOrInfinity_def Let_def
      example_deck_empty_def initialSession_def DEFAULT_USER_SETTINGS_def)

text \<open>
  Claim C6 (amended).  A session whose total is zero does not report itself
  complete.  In particular, when the study queue computed by
  \<open>loadDeckAndCards\<close> or by \<open>resetSession\<close> is empty, the session has a total
  of zero and is not complete.
\<close>

theorem isSessionComplete_empty_queue:
  "(total (progress s) = 0 \<longrightarrow> \<not> isSessionComplete s)
   \<and> (shuffle [] = []
       \<and> filter (\<lambda>c. card_id c \<in> set
             (reviewCardIds (calculateTodayCards now todayStart tomorrowStart studyLogs
                (newCardsPerDay userSettings) (reviewCardsPerDay userSettings) (cardIds d))
              @ newCardIds (calculateTodayCards now todayStart tomorrowStart studyLogs
                (newCardsPerDay userSettings) (reviewCardsPerDay userSettings) (cardIds d))))
           allCards = []
       \<longrightarrow> total (progress (loadDeckAndCards shuffle now todayStart tomorrowStart
                 userSettings (Some d) allCards studyLogs s1)) = 0
           \<and> \<not> isSessionComplete (loadDeckAndCards shuffle now todayStart tomorrowStart
                 userSettings (Some d) allCards studyLogs s1))
   \<and> (settings s2 = Some cfg \<and> deck s2 = Some d2 \<and> shuffle2 [] = []
       \<and> filter (\<lambda>c. card_id c \<in> set
             (reviewCardIds (calculateTodayCards now2 todayStart2 tomorrowStart2 (logs s2)
                (newCardsPerDay cfg) (reviewCardsPerDay cfg) (cardIds d2))
              @ newCardIds (calculateTodayCards now2 todayStart2 tomorrowStart2 (logs s2)
                (newCardsPerDay cfg) (reviewCardsPerDay cfg) (cardIds d2))))
           (cards s2) = []
       \<longrightarrow> total (progress (resetSession shuffle2 now2 todayStart2 tomorrowStart2 s2)) = 0
           \<and> \<not> isSessionComplete (resetSession shuffle2 now2 todayStart2 tomorrowStart2 s2))"
  by (simp add: isSessionComplete_def loadDeckAndCards_def resetSession_def Let_def)

theorem isSessionComplete_empty_queue_witness:
  "rev [] = ([] :: WordCard list)
   \<and> total (progress (loadDeckAndCards rev 388800000 367200000 453600000
        DEFAULT_USER_SETTINGS (Some example_deck_empty) [example_card_a, example_card_b] []
        initialSession)) = 0
   \<and> \<not> isSessionComplete (loadDeckAndCards rev 388800000 367200000 453600000
        DEFAULT_USER_SETTINGS (Some example_deck_empty) [example_card_a, example_card_b] []
        initialSession)
   \<and> settings (loadDeckAndCards rev 388800000 367200000 453600000
        DEFAULT_USER_SETTINGS (Some example_deck_empty) [example_card_a, example_card_b] []
        initialSession) = Some DEFAULT_USER_SETTINGS
   \<and> deck (loadDeckAndCards rev 388800000 367200000 453600000
        DEFAULT_USER_SETTINGS (Some example_deck_empty) [example_card_a, example_card_b] []
        initialSession) = Some example_deck_empty
   \<and> total (progress (resetSession rev 388800000 367200000 453600000
        (loadDeckAndCards rev 388800000 367200000 453600000
           DEFAULT_USER_SETTINGS (Some example_deck_empty) [example_card_a, example_card_b] []
           initialSession))) = 0
   \<and> \<not> isSessionComplete (resetSession rev 388800000 367200000 453600000
        (loadDeckAndCards rev 388800000 367200000 453600000
           DEFAULT_USER_SETTINGS (Some example_deck_empty) [example_card_a, example_card_b] []
           initialSession))"
proof -
  let ?s = "loadDeckAndCards rev 388800000 367200000 453600000
        DEFAULT_USER_SETTINGS (Some example_deck_empty) [example_card_a, example_card_b] []
        initialSession"
  have q: "filter (\<lambda>c. card_id c \<in> set
             (reviewCardIds (calculateTodayCards 388800000 367200000 453600000 []
                (newCardsPerDay DEFAULT_USER_SETTINGS) (reviewCardsPerDay DEFAULT_USER_SETTINGS)
                (cardIds example_deck_empty))
              @ newCardIds (calculateTodayCards 388800000 367200000 453600000 []
                (newCardsPerDay DEFAULT_USER_SETTINGS) (reviewCardsPerDay DEFAULT_USER_SETTINGS)
                (cardIds example_deck_empty))))
           [example_card_a, example_card_b] = []"
    by (simp add: calculateTodayCards_def Array_from_Set_def Array_slice_def
        ToIntegerOrInfinity_def Let_def example_deck_empty_def DEFAULT_USER_SETTINGS_def)
  have h1: "settings ?s = Some DEFAULT_USER_SETTINGS"
    and h2: "deck ?s = Some example_deck_empty"
    and h3: "cards ?s = []"
    and h4: "logs ?s = []"
    by (simp_all add: loadDeckAndCards_def Let_def example_deck_empty_def)
  show ?thesis
    using q h1 h2 h3 h4 isSessionComplete_empty_queue
      [where shuffle = rev and now = 388800000 and todayStart = 367200000
         and tomorrowStart = 453600000 and studyLogs = "[]"
         and userSettings = DEFAULT_USER_SETTINGS and d = example_deck_empty
         and allCards = "[example_card_a, example_card_b]" and ?s1.0 = initialSession
         and s = ?s and ?s2.0 = ?s and cfg = DEFAULT_USER_SETTINGS
         and ?d2.0 = example_deck_empty and ?shuffle2.0 = rev and ?now2.0 = 388800000
         and ?todayStart2.0 = 367200000 and ?tomorrowStart2.0 = 453600000]
    by simp
qed

text \<open>
  Claim C1 fails on the code: \<open>handleResponse\<close> drops the result of
  \<open>LogStorage.save\<close>.  With a store whose write fails, \<open>save\<close> reports
  \<open>False\<close> and stores nothing, and the session moves on all the same: the
  next card is current, the position and the completed counter are 1, and the
  answer is counted in the statistics.
\<close>

theorem handleResponse_failed_save_advances:
  "fst (LogStorage_save example_store_failing
         (newStudyLog example_session example_card_a example_deck DEFAULT_USER_SETTINGS
            ''log-3'' 1728000000 1728000000 CORRECT 1000)) = False
   \<and> snd (handleResponse example_session example_store_failing
            ''log-3'' 1728000000 1728000000 CORRECT 1000) = example_store_failing
   \<and> currentCard example_session = Some example_card_a
   \<and> currentCard (fst (handleResponse example_session example_store_failing
            ''log-3'' 1728000000 1728000000 CORRECT 1000)) = Some example_card_b
   \<and> currentCardIndex example_session = 0
   \<and> currentCardIndex (fst (handleResponse example_session example_store_failing
            ''log-3'' 1728000000 1728000000 CORRECT 1000)) = 1
   \<and> completed (progress (fst (handleResponse example_session example_store_failing
            ''log-3'' 1728000000 1728000000 CORRECT 1000))) = 1
   \<and> stats_correct (sessionStats (fst (handleResponse example_session example_store_failing
            ''log-3'' 1728000000 1728000000 CORRECT 1000))) = 1"
  by (simp add: handleResponse_def LogStorage_save_def example_session_def
      example_store_failing_def updateStats_def Let_def)

section \<open>Properties of the session hook\<close>

lemma MAX_INTERVAL_ge_1: "1 \<le> MAX_INTERVAL"
  by (simp add: MAX_INTERVAL_def)

lemma handleResponse_logs:
  "currentCard s = Some cur \<Longrightarrow> deck s = Some d \<Longrightarrow> settings s = Some cfg \<Longrightarrow>
   logs (fst (handleResponse s st uuid now now' rt rtime))
     = logs s @ [newStudyLog s cur d cfg uuid now now' rt rtime]"
  by (simp add: handleResponse_def Let_def)

lemma handleResponse_store:
  "currentCard s = Some cur \<Longrightarrow> deck s = Some d \<Longrightarrow> settings s = Some cfg \<Longrightarrow>
   snd (handleResponse s st uuid now now' rt rtime)
     = snd (LogStorage_save st (newStudyLog s cur d cfg uuid now now' rt rtime))"
  by (simp add: handleResponse_def Let_def)

lemma newStudyLog_studiedAt:
  "studiedAt (newStudyLog s cur d cfg uuid now now' rt rtime) = now'"
  by (simp add: newStudyLog_def Let_def)

lemma newStudyLog_nextReviewDate_lower:
  "now + min (settingsIntervals cfg rt) MAX_INTERVAL
     \<le> nextReviewDate (newStudyLog s cur d cfg uuid now now' rt rtime)"
  using calculateNextReviewDate_lower
    [of now "settingsIntervals cfg" rt "card_id cur"
        "filter (\<lambda>lg. cardId lg = card_id cur) (logs s)" "settingsMultipliers cfg"]
  by (simp add: newStudyLog_def Let_def)

lemma newStudyLog_nextReviewDate:
  "nextReviewDate (newStudyLog s cur d cfg uuid now now' rt rtime)
   = calculateNextReviewDate now (card_id cur) rt
       (filter (\<lambda>lg. cardId lg = card_id cur) (logs s))
       (settingsIntervals cfg) (settingsMultipliers cfg)"
  by (simp add: newStudyLog_def Let_def)

text \<open>
  Claim C10, as stated, fails.  With the interval of WRONG set to 0 minutes, the
  log recorded and persisted for an answer WRONG has
  \<open>nextReviewDate = studiedAt\<close>.  With that interval set to 1 minute, a
  positive interval, and \<open>studiedAt\<close> read one minute after the clock of
  \<open>calculateNextReviewDate\<close>, the log recorded has
  \<open>nextReviewDate = studiedAt\<close> again.
\<close>

theorem newStudyLog_interval_counterexample:
  "logs (fst (handleResponse
      (example_session\<lparr>settings := Some (DEFAULT_USER_SETTINGS
          \<lparr>reviewIntervals := DEFAULT_REVIEW_INTERVALS\<lparr>wrong := 0\<rparr>\<rparr>)\<rparr>)
      example_store_working ''log-3'' 1728000000 1728000000 WRONG 1000))
   = [\<lparr> logId = ''log-3'', cardId = ''a'', deckId = ''d'', studiedAt = 1728000000,
        responseTime = 1000, responseType = WRONG, nextReviewDate = 1728000000 \<rparr>]
   \<and> STUDY_LOGS (snd (handleResponse
      (example_session\<lparr>settings := Some (DEFAULT_USER_SETTINGS
          \<lparr>reviewIntervals := DEFAULT_REVIEW_INTERVALS\<lparr>wrong := 0\<rparr>\<rparr>)\<rparr>)
      example_store_working ''log-3'' 1728000000 1728000000 WRONG 1000))
   = Some [\<lparr> logId = ''log-3'', cardId = ''a'', deckId = ''d'', studiedAt = 1728000000,
        responseTime = 1000, responseType = WRONG, nextReviewDate = 1728000000 \<rparr>]
   \<and> \<not> studiedAt
          \<lparr> logId = ''log-3'', cardId = ''a'', deckId = ''d'', studiedAt = 1728000000,
            responseTime = 1000, responseType = WRONG, nextReviewDate = 1728000000 \<rparr>
        < nextReviewDate
          \<lparr> logId = ''log-3'', cardId = ''a'', deckId = ''d'', studiedAt = 1728000000,
            responseTime = 1000, responseType = WRONG, nextReviewDate = 1728000000 \<rparr>
   \<and> 0 < settingsIntervals (DEFAULT_USER_SETTINGS
          \<lparr>reviewIntervals := DEFAULT_REVIEW_INTERVALS\<lparr>wrong := 1\<rparr>\<rparr>) WRONG
   \<and> logs (fst (handleResponse
      (example_session\<lparr>settings := Some (DEFAULT_USER_SETTINGS
          \<lparr>reviewIntervals := DEFAULT_REVIEW_INTERVALS\<lparr>wrong := 1\<rparr>\<rparr>)\<rparr>)
      example_store_working ''log-3'' 1728000000 1728060000 WRONG 1000))
   = [\<lparr> logId = ''log-3'', cardId = ''a'', deckId = ''d'', studiedAt = 1728060000,
        responseTime = 1000, responseType = WRONG, nextReviewDate = 1728060000 \<rparr>]
   \<and> \<not> studiedAt
          \<lparr> logId = ''log-3'', cardId = ''a'', deckId = ''d'', studiedAt = 1728060000,
            responseTime = 1000, responseType = WRONG, nextReviewDate = 1728060000 \<rparr>
        < nextReviewDate
          \<lparr> logId = ''log-3'', cardId = ''a'', deckId = ''d'', studiedAt = 1728060000,
            responseTime = 1000, responseType = WRONG, nextReviewDate = 1728060000 \<rparr>"
  by (simp add: handleResponse_def newStudyLog_def LogStorage_save_def LogStorage_getAll_def
      calculateNextReviewDate_def settingsIntervals_def example_session_def
      example_store_working_def example_card_a_def example_deck_def
      DEFAULT_USER_SETTINGS_def DEFAULT_REVIEW_INTERVALS_def MAX_INTERVAL_def Let_def)

text \<open>
  Claim C10 (amended).  When the base interval of the response is at least one
  millisecond, the result of \<open>calculateNextReviewDate\<close> is at least one
  millisecond after the clock it reads, for every response and history.  The
  log that \<open>handleResponse\<close> appends and hands to \<open>LogStorage.save\<close> has that
  result as \<open>nextReviewDate\<close>, at least the smaller of the base interval and
  180 days after the first reading of the clock, and the second reading of the
  clock as \<open>studiedAt\<close>.  It has \<open>nextReviewDate > studiedAt\<close> whenever the
  second reading is at least one millisecond before the first reading plus the
  smaller of the base interval and 180 days.
\<close>

theorem newStudyLog_review_after_study:
  "(1 \<le> intervals rt \<longrightarrow>
      now + 1 \<le> calculateNextReviewDate now cid rt previousLogs intervals multipliers)
   \<and> (currentCard s = Some cur \<and> deck s = Some d \<and> settings s = Some cfg \<longrightarrow>
       logs (fst (handleResponse s st uuid now now' rt rtime))
         = logs s @ [newStudyLog s cur d cfg uuid now now' rt rtime]
       \<and> snd (handleResponse s st uuid now now' rt rtime)
         = snd (LogStorage_save st (newStudyLog s cur d cfg uuid now now' rt rtime))
       \<and> studiedAt (newStudyLog s cur d cfg uuid now now' rt rtime) = now'
       \<and> nextReviewDate (newStudyLog s cur d cfg uuid now now' rt rtime)
         = calculateNextReviewDate now (card_id cur) rt
             (filter (\<lambda>lg. cardId lg = card_id cur) (logs s))
             (settingsIntervals cfg) (settingsMultipliers cfg)
       \<and> now + min (settingsIntervals cfg rt) MAX_INTERVAL
         \<le> nextReviewDate (newStudyLog s cur d cfg uuid now now' rt rtime)
       \<and> (now' + 1 \<le> now + min (settingsIntervals cfg rt) MAX_INTERVAL \<longrightarrow>
            studiedAt (newStudyLog s cur d cfg uuid now now' rt rtime) + 1
              \<le> nextReviewDate (newStudyLog s cur d cfg uuid now now' rt rtime)
            \<and> studiedAt (newStudyLog s cur d cfg uuid now now' rt rtime)
              < nextReviewDate (newStudyLog s cur d cfg uuid now now' rt rtime)))"
proof -
  have a: "now + 1 \<le> calculateNextReviewDate now cid rt previousLogs intervals multipliers"
    if "1 \<le> intervals rt"
  proof -
    have "1 \<le> min (intervals rt) MAX_INTERVAL"
      using that MAX_INTERVAL_ge_1 by simp
    then show ?thesis
      using calculateNextReviewDate_lower [of now intervals rt cid previousLogs multipliers]
      by linarith
  qed
  have b: "now + min (settingsIntervals cfg rt) MAX_INTERVAL
         \<le> nextReviewDate (newStudyLog s cur d cfg uuid now now' rt rtime)"
    by (rule newStudyLog_nextReviewDate_lower)
  have c: "studiedAt (newStudyLog s cur d cfg uuid now now' rt rtime) + 1
              \<le> nextReviewDate (newStudyLog s cur d cfg uuid now now' rt rtime)
            \<and> studiedAt (newStudyLog s cur d cfg uuid now now' rt rtime)
              < nextReviewDate (newStudyLog s cur d cfg uuid now now' rt rtime)"
    if "now' + 1 \<le> now + min (settingsIntervals cfg rt) MAX_INTERVAL"
    using that b by (simp add: newStudyLog_studiedAt)
  have d: "logs (fst (handleResponse s st uuid now now' rt rtime))
         = logs s @ [newStudyLog s cur d cfg uuid now now' rt rtime]
       \<and> snd (handleResponse s st uuid now now' rt rtime)
         = snd (LogStorage_save st (newStudyLog s cur d cfg uuid now now' rt rtime))"
    if "currentCard s = Some cur \<and> deck s = Some d \<and> settings s = Some cfg"
    using that by (simp add: handleResponse_logs handleResponse_store)
  note e = newStudyLog_studiedAt [of s cur d cfg uuid now now' rt rtime]
    newStudyLog_nextReviewDate [of s cur d cfg uuid now now' rt rtime]
  from a b c d e show ?thesis by blast
qed

theorem newStudyLog_review_after_study_witness:
  "1 \<le> DEFAULT_INTERVALS CORRECT
   \<and> 1728000000 + 1 \<le> calculateNextReviewDate 1728000000 ''a'' CORRECT
         [example_log_old, example_log_recent] DEFAULT_INTERVALS DEFAULT_MULTIPLIERS
   \<and> currentCard (example_session\<lparr>logs := [example_log_old, example_log_recent]\<rparr>)
       = Some example_card_a
   \<and> deck (example_session\<lparr>logs := [example_log_old, example_log_recent]\<rparr>)
       = Some example_deck
   \<and> settings (example_session\<lparr>logs := [example_log_old, example_log_recent]\<rparr>)
       = Some DEFAULT_USER_SETTINGS
   \<and> 1728000005 + 1 \<le> 1728000000 + min (settingsIntervals DEFAULT_USER_SETTINGS CORRECT)
                                           MAX_INTERVAL
   \<and> logs (fst (handleResponse
         (example_session\<lparr>logs := [example_log_old, example_log_recent]\<rparr>)
         example_store_working ''log-3'' 1728000000 1728000005 CORRECT 1000))
      = [example_log_old, example_log_recent,
         \<lparr> logId = ''log-3'', cardId = ''a'', deckId = ''d'', studiedAt = 1728000005,
           responseTime = 1000, responseType = CORRECT, nextReviewDate = 2937600000 \<rparr>]
   \<and> studiedAt (newStudyLog
          (example_session\<lparr>logs := [example_log_old, example_log_recent]\<rparr>)
          example_card_a example_deck DEFAULT_USER_SETTINGS ''log-3''
          1728000000 1728000005 CORRECT 1000)
       < nextReviewDate (newStudyLog
          (example_session\<lparr>logs := [example_log_old, example_log_recent]\<rparr>)
          example_card_a example_deck DEFAULT_USER_SETTINGS ''log-3''
          1728000000 1728000005 CORRECT 1000)"
proof -
  let ?s = "example_session\<lparr>logs := [example_log_old, example_log_recent]\<rparr>"
  have h0: "1 \<le> DEFAULT_INTERVALS CORRECT"
    by (simp add: DEFAULT_INTERVALS_def)
  have h1: "currentCard ?s = Some example_card_a"
    and h2: "deck ?s = Some example_deck"
    and h3: "settings ?s = Some DEFAULT_USER_SETTINGS"
    by (simp_all add: example_session_def)
  have h4: "1728000005 + 1 \<le> 1728000000 + min (settingsIntervals DEFAULT_USER_SETTINGS CORRECT) MAX_INTERVAL"
    by (simp add: settingsIntervals_def DEFAULT_USER_SETTINGS_def DEFAULT_REVIEW_INTERVALS_def
        MAX_INTERVAL_def)
  have e: "newStudyLog ?s example_card_a example_deck DEFAULT_USER_SETTINGS ''log-3''
             1728000000 1728000005 CORRECT 1000
           = \<lparr> logId = ''log-3'', cardId = ''a'', deckId = ''d'', studiedAt = 1728000005,
           responseTime = 1000, responseType = CORRECT, nextReviewDate = 2937600000 \<rparr>"
    by (simp add: newStudyLog_def calculateNextReviewDate_def intervalFromHistory_def Let_def
        settingsIntervals_def settingsMultipliers_def example_session_def example_card_a_def
        example_deck_def example_log_old_def example_log_recent_def
        DEFAULT_USER_SETTINGS_def DEFAULT_REVIEW_INTERVALS_def MAX_INTERVAL_def)
  show ?thesis
    using h0 h1 h2 h3 h4 newStudyLog_review_after_study
      [where intervals = DEFAULT_INTERVALS and rt = CORRECT and now = 1728000000
         and cid = "''a''" and previousLogs = "[example_log_old, example_log_recent]"
         and multipliers = DEFAULT_MULTIPLIERS and s = ?s
         and cur = example_card_a and d = example_deck and cfg = DEFAULT_USER_SETTINGS
         and now' = 1728000005 and st = example_store_working and uuid = "''log-3''"
         and rtime = 1000]
    by (simp add: e)
qed

end
